theory Spec2Isabelle
  imports Complex_Main "HOL-Library.Sublist"
begin

section \<open>Python exceptions\<close>

text \<open>
  The exception classes that the modelled code can raise, all of them Python builtins.
  The repository defines no exception class of its own; \<open>Named\<close> stands for an
  exception class given by its name, so that a class the code never raises can still be
  spoken about.
\<close>

datatype exn =
    NameError
  | TypeError
  | ValueError
  | KeyError
  | IndexError
  | FileNotFoundError
  | FileExistsError
  | AttributeError
  | OverflowError
  | Named string

section \<open>gen\_lib.make\_dir\<close>

text \<open>
  A directory path is the list of its components; the file system is the list of the
  directories that exist.
\<close>

type_synonym path = "string list"
type_synonym filesystem = "path list"

datatype pyval = PathV path | BoolV bool | ModuleV string | FuncV string

text \<open>
  The names visible inside the body of \<open>make_dir\<close>: its two parameters, then the
  globals of the module \<open>gen_lib\<close> (three imports and three functions). Python's
  builtins hold no name \<open>value\<close>.
\<close>

definition make_dir_scope :: "path \<Rightarrow> bool \<Rightarrow> (string \<times> pyval) list" where
  "make_dir_scope p clear =
     [(''path'', PathV p), (''clear'', BoolV clear),
      (''os'', ModuleV ''os''), (''shutil'', ModuleV ''shutil''),
      (''collections'', ModuleV ''collections''),
      (''get_iterable'', FuncV ''get_iterable''), (''make_dir'', FuncV ''make_dir''),
      (''adjust_axes'', FuncV ''adjust_axes'')]"

definition lookup_name :: "(string \<times> pyval) list \<Rightarrow> string \<Rightarrow> exn + pyval" where
  "lookup_name scope n = (case map_of scope n of None \<Rightarrow> Inl NameError | Some v \<Rightarrow> Inr v)"

text \<open>\<open>shutil.rmtree\<close>: removes the directory and everything below it.\<close>

definition rmtree :: "filesystem \<Rightarrow> pyval \<Rightarrow> exn + filesystem" where
  "rmtree fs v =
     (case v of
        PathV p \<Rightarrow> (if p \<in> set fs then Inr (filter (\<lambda>q. \<not> prefix p q) fs)
                    else Inl FileNotFoundError)
      | _ \<Rightarrow> Inl TypeError)"

text \<open>\<open>os.makedirs\<close>: creates the directory and its missing ancestors.\<close>

definition makedirs :: "filesystem \<Rightarrow> pyval \<Rightarrow> exn + filesystem" where
  "makedirs fs v =
     (case v of
        PathV p \<Rightarrow> (if p \<in> set fs then Inl FileExistsError
                    else Inr (fs @ filter (\<lambda>q. q \<notin> set fs \<and> q \<noteq> []) (prefixes p)))
      | _ \<Rightarrow> Inl TypeError)"

text \<open>
  A \<open>try: f(value) except: pass\<close> block: the name is looked up, the call made, and any
  exception of either leaves the file system as it was.
\<close>

definition try_on_value ::
  "(filesystem \<Rightarrow> pyval \<Rightarrow> exn + filesystem) \<Rightarrow> (string \<times> pyval) list \<Rightarrow> filesystem \<Rightarrow> filesystem"
where
  "try_on_value f scope fs =
     (case lookup_name scope ''value'' of
        Inl e \<Rightarrow> fs
      | Inr v \<Rightarrow> (case f fs v of Inl e \<Rightarrow> fs | Inr fs' \<Rightarrow> fs'))"

text \<open>
  \<open>make_dir\<close> returns the file system it leaves behind and the exception that escapes
  it, if any.
\<close>

definition make_dir :: "filesystem \<Rightarrow> path \<Rightarrow> bool \<Rightarrow> filesystem \<times> exn option" where
  "make_dir fs p clear =
     (let scope = make_dir_scope p clear;
          fs1 = (if clear then try_on_value rmtree scope fs else fs);
          fs2 = try_on_value makedirs scope fs1
      in (fs2, None))"

section \<open>grape1.DataInventory: the inventory of data files\<close>

text \<open>
  A cell of the inventory's Frequency column: the column starts as strings (the last field
  of the split file name) and the conversion step overwrites some cells with numbers.
\<close>

datatype cell = Str string | Num rat

text \<open>
  A row of the inventory. Datetime is the parsed timestamp in nanoseconds since the epoch
  and Node the node number, both as they are after the casts of lines 118 to 120 (which
  raise on a malformed field and touch neither the Frequency column nor the set of rows).
\<close>

record 'f inv_row =
  Datetime :: int
  Node :: int
  G :: string
  Grid_Square :: string
  Frequency :: 'f
  Filename :: string

definition set_Frequency :: "'a inv_row \<Rightarrow> 'b \<Rightarrow> 'b inv_row" where
  "set_Frequency r v =
     \<lparr>Datetime = Datetime r, Node = Node r, G = G r, Grid_Square = Grid_Square r,
      Frequency = v, Filename = Filename r\<rparr>"

text \<open>Python's \<open>s.strip(chars)\<close>: drops leading and trailing characters that occur in \<open>chars\<close>.\<close>

definition py_strip :: "string \<Rightarrow> string \<Rightarrow> string" where
  "py_strip chars s =
     rev (dropWhile (\<lambda>c. c \<in> set chars) (rev (dropWhile (\<lambda>c. c \<in> set chars) s)))"

text \<open>\<open>df.loc[df['Frequency'] == lbl, 'Frequency'] = hz\<close>\<close>

definition replace_label :: "string \<Rightarrow> rat \<Rightarrow> cell inv_row list \<Rightarrow> cell inv_row list" where
  "replace_label lbl hz df =
     map (\<lambda>r. if Frequency r = Str lbl then set_Frequency r (Num hz) else r) df"

text \<open>
  The Frequency column and the row set of \<open>DataInventory.__init__\<close>: the suffix is
  stripped (line 110), rows whose label contains \<open>G1\<close> are discarded (line 121), and the
  eight abbreviations are overwritten one after the other (lines 124 to 131).
\<close>

definition DataInventory_df :: "string \<Rightarrow> string inv_row list \<Rightarrow> cell inv_row list" where
  "DataInventory_df sfx rows =
     (let df = map (\<lambda>r. set_Frequency r (py_strip sfx (Frequency r))) rows;
          df = filter (\<lambda>r. \<not> sublist ''G1'' (Frequency r)) df;
          df = map (\<lambda>r. set_Frequency r (Str (Frequency r))) df;
          df = replace_label ''WWV5'' 5000000 df;
          df = replace_label ''WWV10'' 10000000 df;
          df = replace_label ''WWV2p5'' 2500000 df;
          df = replace_label ''WWV15'' 15000000 df;
          df = replace_label ''CHU3'' 3330000 df;
          df = replace_label ''CHU7'' 7850000 df;
          df = replace_label ''CHU14'' 14670000 df;
          df = replace_label ''Unknown'' 0 df
      in df)"

text \<open>
  The table of the specification, for comparison with the code: the documented value in
  Hz of each recognized abbreviation.
\<close>

definition documented_Hz :: "string \<Rightarrow> rat option" where
  "documented_Hz = map_of
     [(''WWV2p5'', 2500000), (''WWV5'', 5000000), (''WWV10'', 10000000),
      (''WWV15'', 15000000), (''CHU3'', 3330000), (''CHU7'', 7850000),
      (''CHU14'', 14670000), (''Unknown'', 0)]"

definition normalized_cell :: "string \<Rightarrow> cell" where
  "normalized_cell lbl = (case documented_Hz lbl of Some hz \<Rightarrow> Num hz | None \<Rightarrow> Str lbl)"

section \<open>grape1.GrapeNodes: the node registry\<close>

record node_meta =
  Callsign :: string
  Latitude :: rat
  Longitude :: rat

text \<open>\<open>nodes_df\<close>, indexed by node number.\<close>

type_synonym grape_nodes = "int \<rightharpoonup> node_meta"

text \<open>\<open>grape_nodes.nodes_df.loc[node, column]\<close>: a KeyError when the node is not listed.\<close>

definition nodes_loc :: "grape_nodes \<Rightarrow> int \<Rightarrow> (node_meta \<Rightarrow> 'a) \<Rightarrow> exn + 'a" where
  "nodes_loc reg node column = (case reg node of None \<Rightarrow> Inl KeyError | Some m \<Rightarrow> Inr (column m))"

section \<open>grape1.GrapeData.\_\_load\_raw\<close>

text \<open>
  The dtype of a column of times: a datetime dtype, or any other (object, float64) that
  an empty column can have.
\<close>

datatype dtype = Datetime64 | NotDatetime

text \<open>
  A data frame of observations: the UTC column (its dtype, and its values in nanoseconds
  since the epoch) and the other columns by name, in order. The type of the values is
  left open.
\<close>

record 'v frame =
  UTC_dtype :: dtype
  UTC :: "int list"
  columns :: "(string \<times> 'v list) list"

text \<open>
  A row of a data file: UTC, Freq, Vpk. The reader parses the first column as dates
  (\<open>parse_dates=[0]\<close>), so the UTC column of the rows has a datetime dtype.
\<close>

type_synonym obs = "int \<times> rat \<times> rat"

definition frame_of_obs :: "obs list \<Rightarrow> rat frame" where
  "frame_of_obs rows =
     \<lparr>UTC_dtype = Datetime64, UTC = map fst rows,
      columns = [(''Freq'', map (\<lambda>r. fst (snd r)) rows), (''Vpk'', map (\<lambda>r. snd (snd r)) rows)]\<rparr>"

text \<open>Python's builtins \<open>min\<close> and \<open>max\<close> raise a ValueError on an empty sequence.\<close>

definition py_min :: "int list \<Rightarrow> exn + int" where
  "py_min xs = (if xs = [] then Inl ValueError else Inr (Min (set xs)))"

definition py_max :: "int list \<Rightarrow> exn + int" where
  "py_max xs = (if xs = [] then Inl ValueError else Inr (Max (set xs)))"

text \<open>
  Lines 327 to 346: the rows of the inventory for the frequency and the node, then the
  time range, with an omitted start or end taken from the rows that are left. A cell
  that is still a string is equal to no number.
\<close>

definition select_files ::
  "cell inv_row list \<Rightarrow> int \<Rightarrow> rat \<Rightarrow> int option \<Rightarrow> int option \<Rightarrow> exn + cell inv_row list"
where
  "select_files df node freq sTime eTime =
     (let dft = filter (\<lambda>r. Frequency r = Num freq) df;
          dft = filter (\<lambda>r. Node r = node) dft
      in case (case sTime of None \<Rightarrow> py_min (map Datetime dft) | Some s \<Rightarrow> Inr s) of
           Inl e \<Rightarrow> Inl e
         | Inr s \<Rightarrow>
             (case (case eTime of None \<Rightarrow> py_max (map Datetime dft) | Some e \<Rightarrow> Inr e) of
                Inl e \<Rightarrow> Inl e
              | Inr e \<Rightarrow>
                  Inr (sort_key Datetime
                        (filter (\<lambda>r. s \<le> Datetime r \<and> Datetime r < e) dft))))"

text \<open>
  Lines 349 to 360: every selected file is read (\<open>read_csv\<close> stands for the file system
  and pandas' reader), an empty file is skipped, and the target frequency is subtracted
  from the Freq column.
\<close>

fun load_files ::
  "(string \<Rightarrow> exn + obs list) \<Rightarrow> rat \<Rightarrow> obs list list \<Rightarrow> cell inv_row list \<Rightarrow> exn + obs list list"
where
  "load_files read_csv freq df_raw [] = Inr df_raw"
| "load_files read_csv freq df_raw (row # rows) =
     (case read_csv (Filename row) of
        Inl e \<Rightarrow> Inl e
      | Inr df_load \<Rightarrow>
          (if length df_load = 0 then load_files read_csv freq df_raw rows
           else load_files read_csv freq
                  (df_raw @ [map (\<lambda>(t, f, v). (t, f - freq, v)) df_load]) rows))"

text \<open>\<open>pd.concat\<close> raises a ValueError when it is given no frame.\<close>

definition pd_concat :: "obs list list \<Rightarrow> exn + obs list" where
  "pd_concat dfs = (if dfs = [] then Inl ValueError else Inr (concat dfs))"

text \<open>Lines 365 to 369: the call sign that goes into the label.\<close>

definition label_call_sign :: "string option \<Rightarrow> grape_nodes option \<Rightarrow> int \<Rightarrow> exn + string" where
  "label_call_sign call_sign grape_nodes node =
     (if call_sign = None \<and> grape_nodes \<noteq> None
      then nodes_loc (the grape_nodes) node Callsign
      else Inr '''')"

text \<open>Lines 373 to 378: a coordinate that was not given is looked up in the registry.\<close>

definition coordinate ::
  "rat option \<Rightarrow> grape_nodes option \<Rightarrow> int \<Rightarrow> (node_meta \<Rightarrow> rat) \<Rightarrow> exn + rat option"
where
  "coordinate given grape_nodes node column =
     (if given = None \<and> grape_nodes \<noteq> None
      then (case nodes_loc (the grape_nodes) node column of
              Inl e \<Rightarrow> Inl e | Inr x \<Rightarrow> Inr (Some x))
      else Inr given)"

text \<open>
  The metadata of a data set. The label is the format string
  \<open>'{:0.1f} MHz N{:07d} {!s}'\<close> filled with three values, which are kept as they are:
  the frequency in MHz, the node number and the call sign.
\<close>

record meta =
  label :: "rat \<times> int \<times> string"
  lat :: "rat option"
  lon :: "rat option"

text \<open>
  What \<open>__load_raw\<close> leaves in the object: the stages by name (here the raw stage alone,
  each a frame and its display label) and the metadata. An exception leaves nothing.
  The inventory is the one the caller passes (when none is passed, the code builds it
  from the data directory first).
\<close>

record dataset =
  data :: "(string \<times> rat frame \<times> string) list"
  meta :: meta

definition load_raw ::
  "(string \<Rightarrow> exn + obs list) \<Rightarrow> cell inv_row list \<Rightarrow> int \<Rightarrow> rat \<Rightarrow> int option \<Rightarrow> int option \<Rightarrow>
   rat option \<Rightarrow> rat option \<Rightarrow> string option \<Rightarrow> grape_nodes option \<Rightarrow> exn + dataset"
where
  "load_raw read_csv inventory node freq sTime eTime lat0 lon0 call_sign grape_nodes =
     (case select_files inventory node freq sTime eTime of
        Inl e \<Rightarrow> Inl e
      | Inr dft \<Rightarrow>
     (case load_files read_csv freq [] dft of
        Inl e \<Rightarrow> Inl e
      | Inr dfs \<Rightarrow>
     (case pd_concat dfs of
        Inl e \<Rightarrow> Inl e
      | Inr df_cat \<Rightarrow>
     (let df_raw = sort_key fst df_cat in
      case label_call_sign call_sign grape_nodes node of
        Inl e \<Rightarrow> Inl e
      | Inr cs \<Rightarrow>
     (case coordinate lat0 grape_nodes node Latitude of
        Inl e \<Rightarrow> Inl e
      | Inr la \<Rightarrow>
     (case coordinate lon0 grape_nodes node Longitude of
        Inl e \<Rightarrow> Inl e
      | Inr lo \<Rightarrow>
          Inr \<lparr>data = [(''raw'', frame_of_obs df_raw, ''Raw Data'')],
               meta = \<lparr>label = (freq / 1000000, node, cs), lat = la, lon = lo\<rparr>\<rparr>))))))"

section \<open>grape1.GrapeData.resample\_data\<close>

text \<open>
  Times are integers, in nanoseconds since the epoch; a \<open>timedelta\<close> is its length in
  nanoseconds. Building a \<open>datetime\<close> from the year, month, day, hour, minute and second
  of a timestamp (lines 405 to 419) drops what is below the second.
\<close>

definition truncate_seconds :: "int \<Rightarrow> int" where
  "truncate_seconds t = (t div 1000000000) * 1000000000"

text \<open>
  A pandas timestamp is a 64-bit count of nanoseconds (the least value stands for
  \<open>NaT\<close>). A Python \<open>datetime\<close> lies between the first instant of the year 1 and the
  last microsecond of the year 9999, and adding a \<open>timedelta\<close> to it raises an
  OverflowError when the sum leaves that range.
\<close>

definition Timestamp_min :: int where
  "Timestamp_min = - 9223372036854775807"

definition Timestamp_max :: int where
  "Timestamp_max = 9223372036854775807"

definition valid_Timestamps :: "int list \<Rightarrow> bool" where
  "valid_Timestamps utc = list_all (\<lambda>t. Timestamp_min \<le> t \<and> t \<le> Timestamp_max) utc"

definition datetime_min :: int where
  "datetime_min = - 62135596800000000000"

definition datetime_max :: int where
  "datetime_max = 253402300799999999000"

definition datetime_add :: "int \<Rightarrow> int \<Rightarrow> exn + int" where
  "datetime_add t delta =
     (if datetime_min \<le> t + delta \<and> t + delta \<le> datetime_max then Inr (t + delta)
      else Inl OverflowError)"

text \<open>
  The loop of lines 422 and 423. It need not end (a cadence of zero never reaches the end
  time), so the result is an option: \<open>None\<close> when the loop runs for ever.
\<close>

partial_function (option) rs_loop :: "int list \<Rightarrow> int \<Rightarrow> int \<Rightarrow> (exn + int list) option" where
  "rs_loop rs_times resample_eTime resample_rate =
     (if last rs_times < resample_eTime
      then (case datetime_add (last rs_times) resample_rate of
              Inl e \<Rightarrow> Some (Inl e)
            | Inr t \<Rightarrow> rs_loop (rs_times @ [t]) resample_eTime resample_rate)
      else Some (Inr rs_times))"

declare rs_loop.simps [code]

text \<open>
  Lines 401 to 423: the times to resample to. The minimum of an empty column is \<open>NaT\<close>
  when the column has a datetime dtype, and the \<open>datetime\<close> constructor refuses the
  fields of \<open>NaT\<close> with a TypeError (line 411); it is a float \<open>nan\<close> when the column has
  another dtype, and \<open>nan\<close> has no attribute \<open>year\<close> (line 405).
\<close>

definition resample_times :: "dtype \<Rightarrow> int list \<Rightarrow> int \<Rightarrow> (exn + int list) option" where
  "resample_times utc_dtype utc resample_rate =
     (if utc = []
      then Some (Inl (case utc_dtype of Datetime64 \<Rightarrow> TypeError | NotDatetime \<Rightarrow> AttributeError))
      else rs_loop [truncate_seconds (Min (set utc))] (truncate_seconds (Max (set utc)))
             resample_rate)"

text \<open>
  Line 426: \<open>to_datetime\<close> stands for \<open>pd.to_datetime\<close>, which turns the new times into
  pandas timestamps and may refuse them. Lines 429 to 435: every column other than UTC is
  interpolated at the new times; \<open>interp1d\<close> stands for scipy's interpolation over the
  Julian dates of the given times, which computes in floating point and raises on what
  it refuses.
\<close>

type_synonym to_datetime = "int list \<Rightarrow> exn + int list"

type_synonym 'v interp1d = "int list \<Rightarrow> 'v list \<Rightarrow> int list \<Rightarrow> exn + 'v list"

fun interp_columns ::
  "'v interp1d \<Rightarrow> int list \<Rightarrow> int list \<Rightarrow> (string \<times> 'v list) list \<Rightarrow> (string \<times> 'v list) list \<Rightarrow>
   exn + (string \<times> 'v list) list"
where
  "interp_columns interp1d utc rs_times rs_dct [] = Inr rs_dct"
| "interp_columns interp1d utc rs_times rs_dct ((param, vals) # cols) =
     (case interp1d utc vals rs_times of
        Inl e \<Rightarrow> Inl e
      | Inr rs_vals \<Rightarrow> interp_columns interp1d utc rs_times (rs_dct @ [(param, rs_vals)]) cols)"

text \<open>
  \<open>resample_data\<close>, from the frame of the input stage to the frame of the output stage
  (the display label of the new stage is left out). The new UTC column, built from a list
  of \<open>datetime\<close> values that is never empty, has a datetime dtype.
\<close>

definition resample_data ::
  "to_datetime \<Rightarrow> 'v interp1d \<Rightarrow> 'v frame \<Rightarrow> int \<Rightarrow> (exn + 'v frame) option"
where
  "resample_data to_datetime interp1d df resample_rate =
     (case resample_times (UTC_dtype df) (UTC df) resample_rate of
        None \<Rightarrow> None
      | Some (Inl e) \<Rightarrow> Some (Inl e)
      | Some (Inr rs_times) \<Rightarrow>
          (case to_datetime rs_times of
             Inl e \<Rightarrow> Some (Inl e)
           | Inr rs_stamps \<Rightarrow>
               (case interp_columns interp1d (UTC df) rs_stamps [] (columns df) of
                  Inl e \<Rightarrow> Some (Inl e)
                | Inr rs_dct \<Rightarrow>
                    Some (Inr \<lparr>UTC_dtype = Datetime64, UTC = rs_times, columns = rs_dct\<rparr>))))"

section \<open>grape1.GrapeData.\_\_init\_\_: the resampled stage and its power column\<close>

text \<open>
  A float64 value is a real number or not a finite number (\<open>nan\<close> or an infinity).
  Rounding is not modelled: the numbers are exact.
\<close>

datatype npreal = Real real | NonFinite







section \<open>Library routines for the examples\<close>

text \<open>
  \<open>pd.to_datetime\<close> with timestamps of nanosecond resolution: the times are returned
  when each of them is in the range of a pandas timestamp, and refused otherwise.
\<close>

definition ns_to_datetime :: to_datetime where
  "ns_to_datetime ts =
     (if valid_Timestamps ts then Inr ts else Inl (Named ''OutOfBoundsDatetime''))"

text \<open>
  Linear interpolation as \<open>interp1d\<close> does it for one-dimensional data: the points are
  sorted by time (a stable sort); a new time outside the range of the data is refused
  with a ValueError; a new time that is a time of the data gets the value of the last
  sample with that time; a new time strictly between two samples gets the value on the
  line through them, which is not finite when one of the two samples is not. The times
  are exact: the rounding of the Julian dates is not modelled.
\<close>

fun linear_at :: "(int \<times> npreal) list \<Rightarrow> int \<Rightarrow> npreal option" where
  "linear_at ((x0, y0) # (x1, y1) # ps) x =
     (if x < x0 then None
      else if x1 \<le> x then linear_at ((x1, y1) # ps) x
      else if x = x0 then Some y0
      else Some (case (y0, y1) of
                   (Real a, Real b) \<Rightarrow> Real (a + (b - a) * of_int (x - x0) / of_int (x1 - x0))
                 | _ \<Rightarrow> NonFinite))"
| "linear_at [(x0, y0)] x = (if x = x0 then Some y0 else None)"
| "linear_at [] x = None"

definition linear_interp1d :: "npreal interp1d" where
  "linear_interp1d xs ys x_new =
     (if xs = [] \<or> length xs \<noteq> length ys then Inl ValueError
      else case those (map (linear_at (sort_key fst (zip xs ys))) x_new) of
             None \<Rightarrow> Inl ValueError
           | Some y_new \<Rightarrow> Inr y_new)"

section \<open>grape1.Filter\<close>

text \<open>
  A numpy value is a scalar or a one-dimensional array. The result of a floating-point
  division is a number or, for a division by zero, infinity (numpy warns and does not
  raise). Rounding is not modelled: the numbers are exact rationals.
\<close>

datatype 'a ndarray = Scalar 'a | Array "'a list"

datatype npfloat = Finite rat | Infinity

definition np_reciprocal :: "rat \<Rightarrow> npfloat" where
  "np_reciprocal x = (if x = 0 then Infinity else Finite (1 / x))"

definition np_size :: "'a ndarray \<Rightarrow> nat" where
  "np_size v = (case v of Scalar x \<Rightarrow> 1 | Array xs \<Rightarrow> length xs)"

text \<open>\<open>Wn[::-1]\<close>; a scalar cannot be indexed.\<close>

definition np_reversed :: "'a ndarray \<Rightarrow> exn + 'a ndarray" where
  "np_reversed v = (case v of Scalar x \<Rightarrow> Inl IndexError | Array xs \<Rightarrow> Inr (Array (rev xs)))"

text \<open>Lines 233 to 236: the cutoff handed to the filter design.\<close>

definition cutoff_Wn :: "rat ndarray \<Rightarrow> exn + npfloat ndarray" where
  "cutoff_Wn Tc_min =
     (let Wn = map_ndarray (\<lambda>Tc. np_reciprocal (Tc * 60)) Tc_min
      in if np_size Wn = 2 then np_reversed Wn else Inr Wn)"

record 'c Filter =
  Filter_fs :: rat
  Filter_Wn :: "npfloat ndarray"
  Filter_a :: 'c
  Filter_b :: 'c

text \<open>
  \<open>butter\<close> stands for \<open>scipy.signal.butter\<close>, which returns the coefficients \<open>(b, a)\<close>
  or raises.
\<close>

type_synonym 'c butter = "int \<Rightarrow> npfloat ndarray \<Rightarrow> string \<Rightarrow> rat \<Rightarrow> exn + 'c \<times> 'c"

definition Filter_init :: "'c butter \<Rightarrow> int \<Rightarrow> rat ndarray \<Rightarrow> string \<Rightarrow> rat \<Rightarrow> exn + 'c Filter" where
  "Filter_init butter N Tc_min btype fs =
     (case cutoff_Wn Tc_min of
        Inl e \<Rightarrow> Inl e
      | Inr Wn \<Rightarrow>
          (case butter N Wn btype fs of
             Inl e \<Rightarrow> Inl e
           | Inr (b, a) \<Rightarrow> Inr \<lparr>Filter_fs = fs, Filter_Wn = Wn, Filter_a = a, Filter_b = b\<rparr>))"

text \<open>
  A design routine for the examples: it returns the coefficients \<open>([1], [1])\<close>, which
  are those of the Butterworth filter of order 0.
\<close>

definition granting_butter :: "(rat list) butter" where
  "granting_butter N Wn btype fs = Inr ([1], [1])"

section \<open>Example data\<close>

text \<open>
  Two daily files of node 1 on 10 MHz, for the first two days of 1970, a reader for them,
  a reader for which every file exists and is empty, and a registry that lists node 1.
\<close>

definition day1 :: "cell inv_row" where
  "day1 = \<lparr>Datetime = 0, Node = 1, G = ''G'', Grid_Square = ''EN91fl'',
            Frequency = Num 10000000,
            Filename = ''1970-01-01T000000Z_N0000001_G_EN91fl_FRQ_WWV10.csv''\<rparr>"

definition day2 :: "cell inv_row" where
  "day2 = \<lparr>Datetime = 86400000000000, Node = 1, G = ''G'', Grid_Square = ''EN91fl'',
            Frequency = Num 10000000,
            Filename = ''1970-01-02T000000Z_N0000001_G_EN91fl_FRQ_WWV10.csv''\<rparr>"

definition example_read_csv :: "string \<Rightarrow> exn + obs list" where
  "example_read_csv fname =
     (if fname = ''1970-01-01T000000Z_N0000001_G_EN91fl_FRQ_WWV10.csv''
      then Inr [(0, 10000001, 1 / 2), (1000000000, 9999999, 1)]
      else if fname = ''1970-01-02T000000Z_N0000001_G_EN91fl_FRQ_WWV10.csv''
      then Inr [(86400000000000, 10000000, 2)]
      else Inl FileNotFoundError)"

definition empty_read_csv :: "string \<Rightarrow> exn + obs list" where
  "empty_read_csv fname = Inr []"

definition example_nodes :: grape_nodes where
  "example_nodes = [1 \<mapsto> \<lparr>Callsign = ''W2NAF'', Latitude = 41, Longitude = - 75\<rparr>]"

section \<open>Properties of make\_dir\<close>

lemma lookup_value_make_dir: "lookup_name (make_dir_scope p clear) ''value'' = Inl NameError"
  by (simp add: lookup_name_def make_dir_scope_def)

text \<open>
  C9: for every path and both values of the clear flag, \<open>make_dir\<close> raises nothing and
  leaves the file system unchanged: the name \<open>value\<close> is bound nowhere, so both the
  delete and the create attempt end in a NameError that the bare except swallows.
\<close>

theorem make_dir_noop: "make_dir fs p clear = (fs, None)"
  by (simp add: make_dir_def try_on_value_def lookup_value_make_dir)

section \<open>Properties of the inventory\<close>

text \<open>
  C3, the claim as it stands fails: a file whose frequency label is no recognized
  abbreviation (here \<open>WWV20\<close>) stays in the inventory, with the label as its frequency.
\<close>

theorem DataInventory_keeps_unrecognized:
  "DataInventory_df ''.csv''
     [\<lparr>Datetime = 0, Node = 1, G = ''G'', Grid_Square = ''EN91fl'', Frequency = ''WWV20.csv'',
       Filename = ''1970-01-01T000000Z_N0000001_G_EN91fl_FRQ_WWV20.csv''\<rparr>]
   = [\<lparr>Datetime = 0, Node = 1, G = ''G'', Grid_Square = ''EN91fl'', Frequency = Str ''WWV20'',
       Filename = ''1970-01-01T000000Z_N0000001_G_EN91fl_FRQ_WWV20.csv''\<rparr>]"
  by (simp add: DataInventory_df_def set_Frequency_def py_strip_def replace_label_def sublist_code)

text \<open>
  C3, amended: the built inventory holds, in order, exactly the rows whose stripped label
  does not contain \<open>G1\<close>; in each of them a recognized abbreviation is replaced by its
  documented value in Hz (\<open>documented_Hz\<close>) and any other label is kept as it is.
\<close>

theorem DataInventory_df_normalized:
  "DataInventory_df sfx rows =
     map (\<lambda>r. set_Frequency r (normalized_cell (py_strip sfx (Frequency r))))
       (filter (\<lambda>r. \<not> sublist ''G1'' (py_strip sfx (Frequency r))) rows)"
  unfolding DataInventory_df_def Let_def replace_label_def
  by (induction rows) (auto simp: set_Frequency_def normalized_cell_def documented_Hz_def)

section \<open>Properties of the filter construction\<close>

lemma cutoff_Wn_scalar:
  "0 < Tc \<Longrightarrow> cutoff_Wn (Scalar Tc) = Inr (Scalar (Finite (1 / (60 * Tc))))"
  by (simp add: cutoff_Wn_def np_size_def np_reciprocal_def mult.commute)

lemma cutoff_Wn_pair:
  "0 < T1 \<Longrightarrow> T1 < T2 \<Longrightarrow>
   cutoff_Wn (Array [T1, T2]) = Inr (Array [Finite (1 / (60 * T2)), Finite (1 / (60 * T1))])"
  by (simp add: cutoff_Wn_def np_size_def np_reciprocal_def np_reversed_def mult.commute)

lemma cutoff_Wn_of_Scalar:
  "cutoff_Wn (Scalar Tc) = Inr (Scalar (if Tc = 0 then Infinity else Finite (1 / (60 * Tc))))"
  by (simp add: cutoff_Wn_def np_size_def np_reciprocal_def mult.commute)

lemma cutoff_Wn_of_Array:
  "cutoff_Wn (Array Ts) =
     Inr (Array (if length Ts = 2
                 then rev (map (\<lambda>Tc. if Tc = 0 then Infinity else Finite (1 / (60 * Tc))) Ts)
                 else map (\<lambda>Tc. if Tc = 0 then Infinity else Finite (1 / (60 * Tc))) Ts))"
proof -
  have "(\<lambda>Tc. np_reciprocal (Tc * 60)) = (\<lambda>Tc. if Tc = 0 then Infinity else Finite (1 / (60 * Tc)))"
    by (rule ext) (simp add: np_reciprocal_def mult.commute)
  then show ?thesis
    by (simp add: cutoff_Wn_def np_size_def np_reversed_def)
qed

text \<open>
  C4, the claim as it stands fails: for the order 0, with a design routine that returns
  the coefficients of the filter of order 0, the constructor returns a filter. There is
  no InvalidFilterSpec.
\<close>

theorem Filter_init_order_zero:
  "Filter_init granting_butter 0 (Scalar 1) ''low'' 1 =
     Inr \<lparr>Filter_fs = 1, Filter_Wn = Scalar (Finite (1 / 60)), Filter_a = [1], Filter_b = [1]\<rparr> \<and>
   Filter_init granting_butter 0 (Scalar 1) ''low'' 1 \<noteq> Inl (Named ''InvalidFilterSpec'')"
  by (simp add: Filter_init_def cutoff_Wn_def np_size_def np_reciprocal_def granting_butter_def)

text \<open>
  C4, amended: the constructor checks nothing itself. For every order, sampling rate and
  cutoff, of any sign, it computes the cutoff \<open>1 / (60 * Tc)\<close> of each period, infinite
  for a period of 0, reverses a cutoff of two elements, and hands the result to the
  design routine with the order, the band type and the sampling rate; the construction
  fails exactly when the routine raises, with the routine's own exception, and otherwise
  returns the filter with that cutoff.
\<close>

theorem Filter_init_delegates:
  "Filter_init butter N (Scalar Tc) btype fs =
     (case butter N (Scalar (if Tc = 0 then Infinity else Finite (1 / (60 * Tc)))) btype fs of
        Inl e \<Rightarrow> Inl e
      | Inr (b, a) \<Rightarrow>
          Inr \<lparr>Filter_fs = fs,
               Filter_Wn = Scalar (if Tc = 0 then Infinity else Finite (1 / (60 * Tc))),
               Filter_a = a, Filter_b = b\<rparr>) \<and>
   Filter_init butter N (Array Ts) btype fs =
     (case butter N
             (Array (if length Ts = 2
                     then rev (map (\<lambda>Tc. if Tc = 0 then Infinity else Finite (1 / (60 * Tc))) Ts)
                     else map (\<lambda>Tc. if Tc = 0 then Infinity else Finite (1 / (60 * Tc))) Ts))
             btype fs of
        Inl e \<Rightarrow> Inl e
      | Inr (b, a) \<Rightarrow>
          Inr \<lparr>Filter_fs = fs,
               Filter_Wn =
                 Array (if length Ts = 2
                        then rev (map (\<lambda>Tc. if Tc = 0 then Infinity else Finite (1 / (60 * Tc))) Ts)
                        else map (\<lambda>Tc. if Tc = 0 then Infinity else Finite (1 / (60 * Tc))) Ts),
               Filter_a = a, Filter_b = b\<rparr>)"
  by (simp only: Filter_init_def cutoff_Wn_of_Scalar cutoff_Wn_of_Array sum.case simp_thms)

text \<open>
  C5: a scalar cutoff period \<open>Tc\<close> in minutes reaches the Butterworth design as
  \<open>1 / (60 * Tc)\<close>; a pair of periods \<open>T1 < T2\<close> reaches it as the reciprocals in
  reversed order, \<open>1 / (60 * T2)\<close> before \<open>1 / (60 * T1)\<close>, which is increasing order.
  Periods are positive.
\<close>

theorem Filter_init_cutoff:
  assumes "0 < Tc" and "0 < T1" and "T1 < T2"
  shows "Filter_init butter N (Scalar Tc) btype fs =
           (case butter N (Scalar (Finite (1 / (60 * Tc)))) btype fs of
              Inl e \<Rightarrow> Inl e
            | Inr (b, a) \<Rightarrow>
                Inr \<lparr>Filter_fs = fs, Filter_Wn = Scalar (Finite (1 / (60 * Tc))),
                     Filter_a = a, Filter_b = b\<rparr>) \<and>
         Filter_init butter N (Array [T1, T2]) btype fs =
           (case butter N (Array [Finite (1 / (60 * T2)), Finite (1 / (60 * T1))]) btype fs of
              Inl e \<Rightarrow> Inl e
            | Inr (b, a) \<Rightarrow>
                Inr \<lparr>Filter_fs = fs,
                     Filter_Wn = Array [Finite (1 / (60 * T2)), Finite (1 / (60 * T1))],
                     Filter_a = a, Filter_b = b\<rparr>) \<and>
         1 / (60 * T2) < 1 / (60 * T1)"
proof -
  have "1 / (60 * T2) < 1 / (60 * T1)"
    using assms(2,3) by (simp add: frac_less2)
  then show ?thesis
    using assms by (simp add: Filter_init_def cutoff_Wn_scalar cutoff_Wn_pair)
qed

theorem Filter_init_cutoff_witness:
  "Filter_init granting_butter 6 (Scalar 5) ''low'' 1 =
     Inr \<lparr>Filter_fs = 1, Filter_Wn = Scalar (Finite (1 / 300)), Filter_a = [1], Filter_b = [1]\<rparr> \<and>
   Filter_init granting_butter 6 (Array [2, 5]) ''bandpass'' 1 =
     Inr \<lparr>Filter_fs = 1, Filter_Wn = Array [Finite (1 / 300), Finite (1 / 120)],
          Filter_a = [1], Filter_b = [1]\<rparr> \<and>
   (1 / 300 :: rat) < 1 / 120"
proof -
  have h: "(0::rat) < 5" "(0::rat) < 2" "(2::rat) < 5" by simp_all
  from Filter_init_cutoff [OF h, of granting_butter 6 "''low''" 1]
       Filter_init_cutoff [OF h, of granting_butter 6 "''bandpass''" 1]
  show ?thesis by (simp add: granting_butter_def)
qed

section \<open>Properties of the file selection and the load step\<close>

text \<open>
  With both ends of the time range given, the selection is the half-open interval: the
  rows of the node and the frequency with \<open>sTime \<le> Datetime < eTime\<close>, by time.
\<close>

lemma select_files_half_open:
  "select_files df node freq (Some s) (Some e) =
     Inr (sort_key Datetime
           (filter (\<lambda>r. Frequency r = Num freq \<and> Node r = node \<and> s \<le> Datetime r \<and> Datetime r < e) df))"
proof -
  have "filter (\<lambda>r. s \<le> Datetime r \<and> Datetime r < e)
          (filter (\<lambda>r. Node r = node) (filter (\<lambda>r. Frequency r = Num freq) df)) =
        filter (\<lambda>r. Frequency r = Num freq \<and> Node r = node \<and> s \<le> Datetime r \<and> Datetime r < e) df"
    by (induction df) auto
  then show ?thesis by (simp add: select_files_def)
qed

text \<open>
  C2, at the failing input: with two daily files for the node and the frequency and
  neither start nor end given, the end defaults to the latest file's timestamp and the
  strict comparison drops that file: the first day alone is selected.
\<close>

theorem select_files_omitted_end:
  "select_files [day1, day2] 1 10000000 None None = Inr [day1]"
  by (simp add: select_files_def day1_def day2_def py_min_def py_max_def)

lemma select_files_error: "select_files df node freq sTime eTime = Inl e \<Longrightarrow> e = ValueError"
  by (auto simp: select_files_def py_min_def py_max_def Let_def
           split: option.splits if_splits sum.splits)

lemma load_files_all_empty:
  "\<forall>r\<in>set dft. read_csv (Filename r) = Inr [] \<Longrightarrow> load_files read_csv freq df_raw dft = Inr df_raw"
  by (induction dft) simp_all

text \<open>
  C6, the claim as it stands fails: when no file lies in the requested time range the load
  step raises a ValueError, and it raises the same ValueError when the file it selects
  holds no row.
\<close>

theorem load_raw_no_data_example:
  "load_raw example_read_csv [day1, day2] 1 10000000 (Some 5) (Some 10) None None None None
     = Inl ValueError \<and>
   load_raw example_read_csv [day1, day2] 1 10000000 (Some 5) (Some 10) None None None None
     \<noteq> Inl (Named ''NoDataFound'') \<and>
   load_raw empty_read_csv [day1, day2] 1 10000000 None None None None None None
     = Inl ValueError"
  by (simp add: load_raw_def select_files_def py_min_def py_max_def day1_def day2_def
        empty_read_csv_def pd_concat_def)

text \<open>
  C6, amended: when the selection matches no record, or every selected file is empty, the
  load step fails with the ValueError of \<open>pd.concat\<close>; when the selection itself fails
  (no record of the node and frequency, and a bound to be taken from them) it fails with
  the ValueError of \<open>min\<close> or \<open>max\<close>. In each case no data set is left behind.
\<close>

theorem load_raw_no_data:
  "(select_files inventory node freq sTime eTime = Inr dft \<and>
      (\<forall>r\<in>set dft. read_csv (Filename r) = Inr []) \<longrightarrow>
    load_raw read_csv inventory node freq sTime eTime lat0 lon0 call_sign grape_nodes
      = Inl ValueError) \<and>
   (select_files inventory node freq sTime eTime = Inl e \<longrightarrow>
    e = ValueError \<and>
    load_raw read_csv inventory node freq sTime eTime lat0 lon0 call_sign grape_nodes = Inl e)"
proof (intro conjI impI)
  assume "select_files inventory node freq sTime eTime = Inr dft \<and>
          (\<forall>r\<in>set dft. read_csv (Filename r) = Inr [])"
  then show "load_raw read_csv inventory node freq sTime eTime lat0 lon0 call_sign grape_nodes
               = Inl ValueError"
    by (simp add: load_raw_def load_files_all_empty pd_concat_def)
next
  assume "select_files inventory node freq sTime eTime = Inl e"
  then show "e = ValueError" by (rule select_files_error)
next
  assume "select_files inventory node freq sTime eTime = Inl e"
  then show "load_raw read_csv inventory node freq sTime eTime lat0 lon0 call_sign grape_nodes = Inl e"
    by (simp add: load_raw_def)
qed

theorem load_raw_no_data_witness:
  "select_files [day1, day2] 1 10000000 (Some 5) (Some 10) = Inr [] \<and>
   load_raw example_read_csv [day1, day2] 1 10000000 (Some 5) (Some 10) None None None None
     = Inl ValueError \<and>
   select_files [day1, day2] 1 10000000 None None = Inr [day1] \<and>
   empty_read_csv (Filename day1) = Inr [] \<and>
   load_raw empty_read_csv [day1, day2] 1 10000000 None None None None None None
     = Inl ValueError \<and>
   select_files [day1, day2] 2 10000000 None None = Inl ValueError \<and>
   load_raw example_read_csv [day1, day2] 2 10000000 None None None None None None
     = Inl ValueError"
proof -
  have a: "select_files [day1, day2] 1 10000000 (Some 5) (Some 10) = Inr []"
    by (simp add: select_files_def day1_def day2_def)
  have b: "select_files [day1, day2] 1 10000000 None None = Inr [day1]"
    by (simp add: select_files_def day1_def day2_def py_min_def py_max_def)
  have c: "empty_read_csv (Filename day1) = Inr []"
    by (simp add: empty_read_csv_def)
  have d: "select_files [day1, day2] 2 10000000 None None = Inl ValueError"
    by (simp add: select_files_def day1_def day2_def py_min_def)
  from a b c d
    load_raw_no_data [of "[day1, day2]" 1 10000000 "Some 5" "Some 10" "[]" example_read_csv
      None None None None ValueError]
    load_raw_no_data [of "[day1, day2]" 1 10000000 None None "[day1]" empty_read_csv
      None None None None ValueError]
    load_raw_no_data [of "[day1, day2]" 2 10000000 None None "[]" example_read_csv
      None None None None ValueError]
  show ?thesis by simp
qed

text \<open>
  C10: when the caller gives a call sign, the label is built with the empty string in its
  place: the registry is consulted only when no call sign was given, and otherwise the
  call sign is overwritten with the empty string.
\<close>

theorem load_raw_discards_call_sign:
  assumes "load_raw read_csv inventory node freq sTime eTime lat0 lon0 (Some c) grape_nodes = Inr ds"
  shows "label_call_sign (Some c) grape_nodes node = Inr '''' \<and> snd (snd (label (meta ds))) = ''''"
proof -
  have cs: "label_call_sign (Some c) grape_nodes node = Inr ''''"
    by (simp add: label_call_sign_def)
  from assms have "snd (snd (label (meta ds))) = ''''"
    by (auto simp: load_raw_def cs Let_def split: sum.splits)
  with cs show ?thesis by simp
qed

theorem load_raw_discards_call_sign_witness:
  "\<exists>ds. load_raw example_read_csv [day1, day2] 1 10000000 None None None None
           (Some ''KD8OXT'') (Some example_nodes) = Inr ds \<and>
        snd (snd (label (meta ds))) = ''''"
proof -
  have "load_raw example_read_csv [day1, day2] 1 10000000 None None None None
          (Some ''KD8OXT'') (Some example_nodes) =
        Inr \<lparr>data = [(''raw'',
                      \<lparr>UTC_dtype = Datetime64, UTC = [0, 1000000000],
                       columns = [(''Freq'', [1, - 1]), (''Vpk'', [1 / 2, 1])]\<rparr>,
                      ''Raw Data'')],
             meta = \<lparr>label = (10, 1, ''''), lat = Some 41, lon = Some (- 75)\<rparr>\<rparr>"
    by (simp add: load_raw_def select_files_def py_min_def py_max_def day1_def day2_def
          example_read_csv_def pd_concat_def label_call_sign_def coordinate_def nodes_loc_def
          example_nodes_def frame_of_obs_def)
  from this load_raw_discards_call_sign [OF this] show ?thesis by blast
qed

section \<open>Properties of the resampling\<close>

text \<open>The loop of the new times, one step at a time, and its closed form.\<close>

lemma rs_loop_stop: "\<not> last rs < e \<Longrightarrow> rs_loop rs e rate = Some (Inr rs)"
  by (subst rs_loop.simps) simp

lemma rs_loop_step:
  "last rs < e \<Longrightarrow> datetime_min \<le> last rs + rate \<Longrightarrow> last rs + rate \<le> datetime_max \<Longrightarrow>
   rs_loop rs e rate = rs_loop (rs @ [last rs + rate]) e rate"
  by (subst rs_loop.simps) (simp add: datetime_add_def)

lemma rs_loop_overflow:
  "last rs < e \<Longrightarrow> datetime_max < last rs + rate \<Longrightarrow> rs_loop rs e rate = Some (Inl OverflowError)"
  by (subst rs_loop.simps) (simp add: datetime_add_def)

lemma steps_zero: "0 < rate \<Longrightarrow> nat ((e - l + rate - 1) div rate) = 0 \<Longrightarrow> \<not> l < (e::int)"
proof -
  assume r: "0 < rate" and z: "nat ((e - l + rate - 1) div rate) = 0"
  from z have "\<not> 0 < (e - l + rate - 1) div rate" by simp
  with r have "\<not> rate \<le> e - l + rate - 1" by (simp add: pos_imp_zdiv_pos_iff)
  then show ?thesis by simp
qed

lemma steps_Suc: "0 < rate \<Longrightarrow> nat ((e - l + rate - 1) div rate) = Suc n \<Longrightarrow>
   l < (e::int) \<and> nat ((e - (l + rate) + rate - 1) div rate) = n"
proof -
  assume r: "0 < rate" and s: "nat ((e - l + rate - 1) div rate) = Suc n"
  from s have "0 < (e - l + rate - 1) div rate" by simp
  with r have "rate \<le> e - l + rate - 1" by (simp add: pos_imp_zdiv_pos_iff)
  then have lt: "l < e" by simp
  have "e - l + rate - 1 = (e - (l + rate) + rate - 1) + rate" by simp
  then have "(e - l + rate - 1) div rate = ((e - (l + rate) + rate - 1) + rate) div rate" by (rule arg_cong)
  also have "\<dots> = (e - (l + rate) + rate - 1) div rate + 1"
    using r by (subst div_add_self2) simp_all
  finally show ?thesis using s lt by simp
qed

lemma shifted_grid: "map (\<lambda>k. (l + rate) + int k * rate) [0..<Suc n] = map (\<lambda>k. l + int k * rate) [Suc 0..<Suc (Suc n)]"
proof -
  have "[Suc 0..<Suc (Suc n)] = map Suc [0..<Suc n]" by (rule map_Suc_upt [symmetric])
  then show ?thesis by (simp add: o_def algebra_simps del: upt_Suc)
qed

lemma grid_from_zero: "(rs @ [l]) @ map (\<lambda>k. l + int k * rate) [Suc 0..<Suc (Suc n)] = rs @ map (\<lambda>k. l + int k * rate) [0..<Suc (Suc n)]"
proof -
  have "[0..<Suc (Suc n)] = 0 # [Suc 0..<Suc (Suc n)]" by (rule upt_conv_Cons) simp
  then show ?thesis by (simp del: upt_Suc)
qed

lemma rs_loop_closed_aux:
  "0 < rate \<Longrightarrow> datetime_min \<le> l \<Longrightarrow> l \<le> datetime_max \<Longrightarrow>
   nat ((e - l + rate - 1) div rate) = n \<Longrightarrow>
   rs_loop (rs @ [l]) e rate =
     Some (if l + int n * rate \<le> datetime_max
           then Inr (rs @ map (\<lambda>k. l + int k * rate) [0..<Suc n])
           else Inl OverflowError)"
proof (induction n arbitrary: rs l)
  case 0
  from "0.prems"(1,4) have "\<not> l < e" by (intro steps_zero)
  then have "\<not> last (rs @ [l]) < e" by simp
  then have "rs_loop (rs @ [l]) e rate = Some (Inr (rs @ [l]))" by (rule rs_loop_stop)
  with "0.prems"(3) show ?case by simp
next
  case (Suc n)
  from steps_Suc [OF Suc.prems(1,4)] have lt: "l < e"
    and n: "nat ((e - (l + rate) + rate - 1) div rate) = n" by simp_all
  from lt have last: "last (rs @ [l]) < e" by simp
  have eq: "l + int (Suc n) * rate = (l + rate) + int n * rate"
    by (simp add: algebra_simps)
  show ?case
  proof (cases "l + rate \<le> datetime_max")
    case True
    from Suc.prems(1,2) have lo: "datetime_min \<le> l + rate" by simp
    have "rs_loop (rs @ [l]) e rate = rs_loop ((rs @ [l]) @ [last (rs @ [l]) + rate]) e rate"
      using last lo True by (intro rs_loop_step) simp_all
    also have "\<dots> = rs_loop ((rs @ [l]) @ [l + rate]) e rate" by simp
    also have "\<dots> = Some (if (l + rate) + int n * rate \<le> datetime_max
           then Inr ((rs @ [l]) @ map (\<lambda>k. (l + rate) + int k * rate) [0..<Suc n])
           else Inl OverflowError)"
      using Suc.IH [OF Suc.prems(1) lo True n] .
    also have "\<dots> = Some (if l + int (Suc n) * rate \<le> datetime_max
           then Inr (rs @ map (\<lambda>k. l + int k * rate) [0..<Suc (Suc n)])
           else Inl OverflowError)"
      by (simp only: shifted_grid grid_from_zero eq)
    finally show ?thesis .
  next
    case False
    then have "datetime_max < last (rs @ [l]) + rate" by simp
    with last have "rs_loop (rs @ [l]) e rate = Some (Inl OverflowError)"
      by (rule rs_loop_overflow)
    moreover have "0 \<le> int n * rate" using Suc.prems(1) by simp
    then have "\<not> l + int (Suc n) * rate \<le> datetime_max" using False eq by linarith
    ultimately show ?thesis by simp
  qed
qed

lemma rs_loop_closed:
  "0 < rate \<Longrightarrow> datetime_min \<le> s \<Longrightarrow> s \<le> datetime_max \<Longrightarrow>
   rs_loop [s] e rate =
     Some (if s + int (nat ((e - s + rate - 1) div rate)) * rate \<le> datetime_max
           then Inr (map (\<lambda>k. s + int k * rate) [0..<Suc (nat ((e - s + rate - 1) div rate))])
           else Inl OverflowError)"
  using rs_loop_closed_aux [of rate s e _ "[]"] by simp

text \<open>The truncated start of a series of pandas timestamps is a \<open>datetime\<close>.\<close>

lemma truncate_seconds_bounds: "t - 1000000000 < truncate_seconds t \<and> truncate_seconds t \<le> t"
proof -
  have "truncate_seconds t = t - t mod 1000000000"
    by (simp add: truncate_seconds_def minus_mod_eq_div_mult)
  moreover have "0 \<le> t mod 1000000000" "t mod 1000000000 < 1000000000" by simp_all
  ultimately show ?thesis by linarith
qed

lemma valid_Timestamps_start:
  assumes "utc \<noteq> []" and "valid_Timestamps utc"
  shows "datetime_min \<le> truncate_seconds (Min (set utc)) \<and>
         truncate_seconds (Min (set utc)) \<le> datetime_max"
proof -
  have "Min (set utc) \<in> set utc" using assms(1) by (intro Min_in) simp_all
  with assms(2) have "Timestamp_min \<le> Min (set utc)" "Min (set utc) \<le> Timestamp_max"
    by (auto simp: valid_Timestamps_def list_all_iff)
  with truncate_seconds_bounds [of "Min (set utc)"] show ?thesis
    by (simp add: Timestamp_min_def Timestamp_max_def datetime_min_def datetime_max_def)
qed

text \<open>
  For a series of pandas timestamps that is not empty and a positive cadence the loop
  ends: the new times are the arithmetic sequence from the truncated start, in steps of
  the cadence, up to the first element that is not before the truncated end, unless
  that element lies beyond the range of \<open>datetime\<close>.
\<close>

lemma resample_times_closed:
  "utc \<noteq> [] \<Longrightarrow> valid_Timestamps utc \<Longrightarrow> 0 < rate \<Longrightarrow>
   resample_times dt utc rate =
     Some (if truncate_seconds (Min (set utc))
               + int (nat ((truncate_seconds (Max (set utc)) - truncate_seconds (Min (set utc))
                             + rate - 1) div rate)) * rate \<le> datetime_max
           then Inr (map (\<lambda>k. truncate_seconds (Min (set utc)) + int k * rate)
                      [0..<Suc (nat ((truncate_seconds (Max (set utc))
                                       - truncate_seconds (Min (set utc)) + rate - 1) div rate))])
           else Inl OverflowError)"
  using valid_Timestamps_start [of utc]
  by (simp add: resample_times_def rs_loop_closed del: upt_Suc)

lemma grid_spacing:
  "i < n \<Longrightarrow>
   map (\<lambda>k. s + int k * rate) [0..<Suc n] ! Suc i - map (\<lambda>k. s + int k * rate) [0..<Suc n] ! i = rate"
proof -
  assume i: "i < n"
  have "map (\<lambda>k. s + int k * rate) [0..<Suc n] ! Suc i = s + int (Suc i) * rate"
    using i by (subst nth_map) (simp_all del: upt_Suc)
  moreover have "map (\<lambda>k. s + int k * rate) [0..<Suc n] ! i = s + int i * rate"
    using i by (subst nth_map) (simp_all del: upt_Suc)
  ultimately show ?thesis by (simp add: algebra_simps)
qed

lemma grid_before_end:
  "0 < rate \<Longrightarrow> k < nat ((e - s + rate - 1) div rate) \<Longrightarrow> s + int k * rate < e"
proof -
  assume r: "0 < rate" and k: "k < nat ((e - s + rate - 1) div rate)"
  from k have "int k + 1 \<le> (e - s + rate - 1) div rate" by linarith
  then have "(int k + 1) * rate \<le> (e - s + rate - 1) div rate * rate"
    using r by (simp add: mult_right_mono)
  also have "\<dots> = (e - s + rate - 1) - (e - s + rate - 1) mod rate"
    by (simp only: minus_mod_eq_div_mult)
  also have "\<dots> \<le> e - s + rate - 1"
    using pos_mod_sign [OF r, of "e - s + rate - 1"] by linarith
  finally show ?thesis by (simp add: algebra_simps)
qed

text \<open>
  C1, at the failing input: a series from second 0 to second 3 resampled at a cadence of
  two seconds gets the times 0, 2 and 4 seconds, and the last of them lies beyond the
  truncated end of the series, which is second 3.
\<close>

theorem resample_times_overshoot:
  "resample_times dt [0, 1000000000, 2000000000, 3000000000] 2000000000
     = Some (Inr [0, 2000000000, 4000000000]) \<and>
   truncate_seconds (Max (set [0, 1000000000, 2000000000, 3000000000])) = 3000000000"
  by (simp add: resample_times_def truncate_seconds_def rs_loop.simps datetime_add_def
        datetime_min_def datetime_max_def)

text \<open>
  C7, the claim as it stands fails: on an empty series \<open>resample_data\<close> raises a TypeError
  when the UTC column has a datetime dtype and an AttributeError when it has not.
\<close>

theorem resample_data_empty_example:
  "resample_data ns_to_datetime linear_interp1d
     \<lparr>UTC_dtype = Datetime64, UTC = [], columns = [(''Freq'', []), (''Vpk'', [])]\<rparr> 1000000000
     = Some (Inl TypeError) \<and>
   resample_data ns_to_datetime linear_interp1d
     \<lparr>UTC_dtype = NotDatetime, UTC = [], columns = [(''Freq'', []), (''Vpk'', [])]\<rparr> 1000000000
     = Some (Inl AttributeError) \<and>
   resample_data ns_to_datetime linear_interp1d
     \<lparr>UTC_dtype = Datetime64, UTC = [], columns = [(''Freq'', []), (''Vpk'', [])]\<rparr> 1000000000
     \<noteq> Some (Inl (Named ''InvalidSeries'')) \<and>
   resample_data ns_to_datetime linear_interp1d
     \<lparr>UTC_dtype = NotDatetime, UTC = [], columns = [(''Freq'', []), (''Vpk'', [])]\<rparr> 1000000000
     \<noteq> Some (Inl (Named ''InvalidSeries''))"
  by (simp add: resample_data_def resample_times_def)

text \<open>
  C7, amended: on an empty series \<open>resample_data\<close> fails with a TypeError when the UTC
  column has a datetime dtype, and with an AttributeError when it has another dtype. On a
  series of pandas timestamps that is not empty, with a positive cadence, it checks the
  timestamps for neither duplicates nor order. The new times are the arithmetic sequence
  from the truncated start; the call fails with an OverflowError when the last of them
  would lie beyond the range of \<open>datetime\<close>, and otherwise it fails exactly when the
  conversion of the new times or the interpolation of a column raises, with the
  library's own exception.
\<close>

theorem resample_data_failures:
  "(UTC df = [] \<longrightarrow>
      resample_data to_datetime interp1d df rate =
        Some (Inl (case UTC_dtype df of Datetime64 \<Rightarrow> TypeError | NotDatetime \<Rightarrow> AttributeError))) \<and>
   (UTC df \<noteq> [] \<and> valid_Timestamps (UTC df) \<and> 0 < rate \<longrightarrow>
      (let s = truncate_seconds (Min (set (UTC df)));
           e = truncate_seconds (Max (set (UTC df)));
           n = nat ((e - s + rate - 1) div rate);
           rs_times = map (\<lambda>k. s + int k * rate) [0..<Suc n]
       in resample_data to_datetime interp1d df rate =
            Some (if s + int n * rate \<le> datetime_max
                  then (case to_datetime rs_times of
                          Inl e \<Rightarrow> Inl e
                        | Inr rs_stamps \<Rightarrow>
                            (case interp_columns interp1d (UTC df) rs_stamps [] (columns df) of
                               Inl e \<Rightarrow> Inl e
                             | Inr rs_dct \<Rightarrow>
                                 Inr \<lparr>UTC_dtype = Datetime64, UTC = rs_times, columns = rs_dct\<rparr>))
                  else Inl OverflowError)))"
proof (intro conjI impI)
  assume "UTC df = []"
  then show "resample_data to_datetime interp1d df rate =
        Some (Inl (case UTC_dtype df of Datetime64 \<Rightarrow> TypeError | NotDatetime \<Rightarrow> AttributeError))"
    by (simp add: resample_data_def resample_times_def)
next
  assume a: "UTC df \<noteq> [] \<and> valid_Timestamps (UTC df) \<and> 0 < rate"
  then have "resample_times (UTC_dtype df) (UTC df) rate =
     Some (if truncate_seconds (Min (set (UTC df)))
               + int (nat ((truncate_seconds (Max (set (UTC df))) - truncate_seconds (Min (set (UTC df)))
                             + rate - 1) div rate)) * rate \<le> datetime_max
           then Inr (map (\<lambda>k. truncate_seconds (Min (set (UTC df))) + int k * rate)
                      [0..<Suc (nat ((truncate_seconds (Max (set (UTC df)))
                                       - truncate_seconds (Min (set (UTC df))) + rate - 1) div rate))])
           else Inl OverflowError)"
    by (intro resample_times_closed) simp_all
  then show "let s = truncate_seconds (Min (set (UTC df)));
           e = truncate_seconds (Max (set (UTC df)));
           n = nat ((e - s + rate - 1) div rate);
           rs_times = map (\<lambda>k. s + int k * rate) [0..<Suc n]
       in resample_data to_datetime interp1d df rate =
            Some (if s + int n * rate \<le> datetime_max
                  then (case to_datetime rs_times of
                          Inl e \<Rightarrow> Inl e
                        | Inr rs_stamps \<Rightarrow>
                            (case interp_columns interp1d (UTC df) rs_stamps [] (columns df) of
                               Inl e \<Rightarrow> Inl e
                             | Inr rs_dct \<Rightarrow>
                                 Inr \<lparr>UTC_dtype = Datetime64, UTC = rs_times, columns = rs_dct\<rparr>))
                  else Inl OverflowError)"
    by (simp add: resample_data_def Let_def split: sum.splits del: upt_Suc)
qed

theorem resample_data_failures_witness:
  "resample_data ns_to_datetime linear_interp1d
     \<lparr>UTC_dtype = Datetime64, UTC = [], columns = [(''Vpk'', [])]\<rparr> 1000000000
     = Some (Inl TypeError) \<and>
   resample_data ns_to_datetime linear_interp1d
     \<lparr>UTC_dtype = NotDatetime, UTC = [], columns = [(''Vpk'', [])]\<rparr> 1000000000
     = Some (Inl AttributeError) \<and>
   resample_data ns_to_datetime linear_interp1d
     \<lparr>UTC_dtype = Datetime64, UTC = [0, 1000000000, 1000000000, 2000000000],
      columns = [(''Vpk'', [Real 1, Real 2, Real 3, Real 4])]\<rparr>
     1000000000
     = Some (Inr \<lparr>UTC_dtype = Datetime64, UTC = [0, 1000000000, 2000000000],
                  columns = [(''Vpk'', [Real 1, Real 3, Real 4])]\<rparr>) \<and>
   resample_data ns_to_datetime linear_interp1d
     \<lparr>UTC_dtype = Datetime64, UTC = [0, 1000000000], columns = [(''Vpk'', [Real 1, Real 2])]\<rparr>
     300000000000000000000
     = Some (Inl OverflowError)"
proof -
  have v1: "valid_Timestamps [0, 1000000000, 1000000000, 2000000000]"
    and v2: "valid_Timestamps [0, 1000000000]"
    and v3: "valid_Timestamps [0, 1000000000, 2000000000]"
    by (simp_all add: valid_Timestamps_def Timestamp_min_def Timestamp_max_def)
  from
    resample_data_failures
      [of "\<lparr>UTC_dtype = Datetime64, UTC = [], columns = [(''Vpk'', [])]\<rparr>"
          ns_to_datetime linear_interp1d 1000000000]
  have c1: "resample_data ns_to_datetime linear_interp1d
     \<lparr>UTC_dtype = Datetime64, UTC = [], columns = [(''Vpk'', [])]\<rparr> 1000000000
     = Some (Inl TypeError)"
    by simp
  from
    resample_data_failures
      [of "\<lparr>UTC_dtype = NotDatetime, UTC = [], columns = [(''Vpk'', [])]\<rparr>"
          ns_to_datetime linear_interp1d 1000000000]
  have c2: "resample_data ns_to_datetime linear_interp1d
     \<lparr>UTC_dtype = NotDatetime, UTC = [], columns = [(''Vpk'', [])]\<rparr> 1000000000
     = Some (Inl AttributeError)"
    by simp
  from v1 v3
    resample_data_failures
      [of "\<lparr>UTC_dtype = Datetime64, UTC = [0, 1000000000, 1000000000, 2000000000],
            columns = [(''Vpk'', [Real 1, Real 2, Real 3, Real 4])]\<rparr>"
          ns_to_datetime linear_interp1d 1000000000]
  have c3: "resample_data ns_to_datetime linear_interp1d
     \<lparr>UTC_dtype = Datetime64, UTC = [0, 1000000000, 1000000000, 2000000000],
      columns = [(''Vpk'', [Real 1, Real 2, Real 3, Real 4])]\<rparr>
     1000000000
     = Some (Inr \<lparr>UTC_dtype = Datetime64, UTC = [0, 1000000000, 2000000000],
                  columns = [(''Vpk'', [Real 1, Real 3, Real 4])]\<rparr>)"
    by (simp add: truncate_seconds_def datetime_max_def ns_to_datetime_def upt_conv_Cons
          linear_interp1d_def Let_def del: upt_Suc)
  from v2
    resample_data_failures
      [of "\<lparr>UTC_dtype = Datetime64, UTC = [0, 1000000000],
            columns = [(''Vpk'', [Real 1, Real 2])]\<rparr>"
          ns_to_datetime linear_interp1d 300000000000000000000]
  have c4: "resample_data ns_to_datetime linear_interp1d
     \<lparr>UTC_dtype = Datetime64, UTC = [0, 1000000000], columns = [(''Vpk'', [Real 1, Real 2])]\<rparr>
     300000000000000000000
     = Some (Inl OverflowError)"
    by (simp add: truncate_seconds_def datetime_max_def Let_def del: upt_Suc)
  from c1 c2 c3 c4 show ?thesis by (intro conjI)
qed

section \<open>Properties of the power column\<close>






end
